theory Spec2Isabelle
  imports Complex_Main "HOL-Library.Sublist"
begin

section \<open>Python strings\<close>

text \<open>
  The ingestion script (\<^verbatim>\<open>src/data_ingestion.py\<close>) uses two operations of
  Python's \<^verbatim>\<open>str\<close>: the substring test \<^verbatim>\<open>sub in s\<close> and
  \<^verbatim>\<open>s.replace(old, new)\<close>. Both are built into the interpreter; they are
  modelled here as Python documents them. \<^verbatim>\<open>in\<close> scans for a position where
  \<open>sub\<close> starts; \<^verbatim>\<open>replace\<close> scans from the left and substitutes every
  occurrence it meets, continuing after the occurrence (so occurrences do not overlap,
  and text produced by a substitution is not scanned again).
\<close>

fun py_in :: "string \<Rightarrow> string \<Rightarrow> bool" where
  "py_in sub [] = (sub = [])"
| "py_in sub (c # cs) = (prefix sub (c # cs) \<or> py_in sub cs)"

fun py_replace :: "string \<Rightarrow> string \<Rightarrow> string \<Rightarrow> string" where
  "py_replace old new [] = (if old = [] then new else [])"
| "py_replace old new (c # cs) =
     (if old = [] then new @ c # py_replace old new cs
      else if prefix old (c # cs) then new @ py_replace old new (drop (length old - 1) cs)
      else c # py_replace old new cs)"

section \<open>The data fetcher's URL rule\<close>

text \<open>
  Lines 58--59 of \<^verbatim>\<open>load_data\<close>:
  \<^verbatim>\<open>
  if "github.com" in data_url and "raw" not in data_url:
      data_url = data_url.replace("blob/", "").replace("github.com", "raw.githubusercontent.com")
  \<close>
\<close>

definition resolve_url :: "string \<Rightarrow> string" where
  "resolve_url data_url =
     (if py_in ''github.com'' data_url \<and> \<not> py_in ''raw'' data_url
      then py_replace ''github.com'' ''raw.githubusercontent.com''
             (py_replace ''blob/'' '''' data_url)
      else data_url)"

section \<open>Exceptions, log records and configuration values\<close>

text \<open>
  The exception classes the script names or can meet, all subclasses of Python's
  \<^verbatim>\<open>Exception\<close>; each carries its message. \<open>OtherException\<close> stands for any
  further subclass a library may raise.
\<close>

datatype exn =
    FileNotFoundError string
  | YAMLError string
  | ParserError string
  | KeyError string
  | TypeError string
  | ValueError string
  | OSError string
  | OtherException string

text \<open>
  A logging call keeps its format string and its arguments apart (as Python's
  \<^verbatim>\<open>LogRecord\<close> does with \<^verbatim>\<open>msg\<close> and \<^verbatim>\<open>args\<close>); an f-string is the
  list of its segments.
\<close>

datatype level = DEBUG | INFO | ERROR

datatype arg = S string | E exn

type_synonym log_record = "level \<times> string \<times> arg list"

text \<open>
  What \<^verbatim>\<open>yaml.safe_load\<close> returns. A float is taken as the rational it denotes
  (infinities and NaN are left out).
\<close>

datatype yaml =
    YNull
  | YBool bool
  | YInt int
  | YFloat rat
  | YStr string
  | YList "yaml list"
  | YMap "(yaml \<times> yaml) list"

text \<open>
  Python's \<^verbatim>\<open>obj[key]\<close> for a string key, as in
  \<^verbatim>\<open>params['data_ingestion']['test_size']\<close>: a dict looks the key up and raises
  \<^verbatim>\<open>KeyError\<close> when it is absent; a list or a string refuses a string index and
  every other value is not subscriptable (\<^verbatim>\<open>TypeError\<close>).
\<close>

fun subscript :: "yaml \<Rightarrow> string \<Rightarrow> exn + yaml" where
  "subscript (YMap m) key =
     (case map_of m (YStr key) of
        Some v \<Rightarrow> Inr v
      | None \<Rightarrow> Inl (KeyError key))"
| "subscript (YList _) key = Inl (TypeError ''list indices must be integers or slices, not str'')"
| "subscript (YStr _) key = Inl (TypeError ''string indices must be integers, not 'str' '')"
| "subscript _ key = Inl (TypeError ''object is not subscriptable'')"

section \<open>Tables\<close>

text \<open>
  A pandas \<^verbatim>\<open>DataFrame\<close>: the row labels (\<^verbatim>\<open>df.index\<close>) and the columns in
  order, each a label with one cell per row. Labels may repeat. The script never looks
  inside a cell.
\<close>

datatype cell = NaN | Text string | Number int

record dataframe =
  index :: "nat list"
  cols :: "(string \<times> cell list) list"

definition labels :: "dataframe \<Rightarrow> string list" where
  "labels df = map fst (cols df)"

definition py_repr_list :: "string list \<Rightarrow> string" where
  "py_repr_list ls =
     ''['' @ concat (map (\<lambda>(i, l). (if i = 0 then [] else '', '') @ [CHR 0x27] @ l @ [CHR 0x27])
                        (zip [0..<length ls] ls)) @ '']''"

text \<open>
  \<^verbatim>\<open>df.drop(columns=ls, inplace=True)\<close> with pandas' default
  \<^verbatim>\<open>errors='raise'\<close>: when a label of \<open>ls\<close> is not a column label, pandas raises
  \<^verbatim>\<open>KeyError\<close> naming the missing labels and leaves the table as it was; otherwise
  every column whose label is in \<open>ls\<close> goes.
\<close>

definition drop_columns :: "string list \<Rightarrow> dataframe \<Rightarrow> exn + dataframe" where
  "drop_columns ls df =
     (case filter (\<lambda>l. l \<notin> set (labels df)) ls of
        [] \<Rightarrow> Inr (df\<lparr>cols := filter (\<lambda>c. fst c \<notin> set ls) (cols df)\<rparr>)
      | missing \<Rightarrow> Inl (KeyError (py_repr_list missing @ '' not found in axis'')))"

text \<open>
  \<^verbatim>\<open>df.rename(columns=mapper, inplace=True)\<close> with pandas' default
  \<^verbatim>\<open>errors='ignore'\<close>: each column label that is a key of the mapper is replaced,
  every other label stays, and a key that is no column label is ignored.
\<close>

definition rename_columns :: "(string \<times> string) list \<Rightarrow> dataframe \<Rightarrow> dataframe" where
  "rename_columns mapper df =
     df\<lparr>cols := map (\<lambda>c. (case map_of mapper (fst c) of Some l \<Rightarrow> l | None \<Rightarrow> fst c, snd c))
                     (cols df)\<rparr>"

text \<open>Positional row selection (\<^verbatim>\<open>df.iloc[positions]\<close>).\<close>

definition take_rows :: "dataframe \<Rightarrow> nat list \<Rightarrow> dataframe" where
  "take_rows df ps =
     \<lparr>index = map (\<lambda>i. index df ! i) ps,
      cols = map (\<lambda>c. (fst c, map (\<lambda>i. snd c ! i) ps)) (cols df)\<rparr>"

text \<open>
  \<^verbatim>\<open>df.to_csv(path, index=False)\<close> writes the header line and one line per row,
  without the row labels.
\<close>

type_synonym csv = "string list \<times> cell list list"

definition to_csv :: "dataframe \<Rightarrow> csv" where
  "to_csv df =
     (labels df, map (\<lambda>i. map (\<lambda>c. snd c ! i) (cols df)) [0..<length (index df)])"

section \<open>The split of scikit-learn\<close>

text \<open>
  \<^verbatim>\<open>train_test_split\<close> belongs to scikit-learn and draws its shuffle from NumPy.
  Two things of those libraries are not modelled but taken as parameters:
  \<^item> \<open>fmul\<close>, the floating-point product \<^verbatim>\<open>test_size * n_samples\<close>;
  \<^item> \<open>seeded_permutation seed n\<close>, the value of
    \<^verbatim>\<open>RandomState(seed).permutation(n)\<close>.
\<close>

record numpy =
  fmul :: "rat \<Rightarrow> nat \<Rightarrow> rat"
  seeded_permutation :: "nat \<Rightarrow> nat \<Rightarrow> nat list"

text \<open>
  \<^verbatim>\<open>_validate_shuffle_split\<close> with \<^verbatim>\<open>train_size=None\<close>: a float must lie strictly
  between 0 and 1 and gives \<^verbatim>\<open>n_test = ceil(test_size * n_samples)\<close>; an integer must
  lie strictly between 0 and \<^verbatim>\<open>n_samples\<close> and is \<^verbatim>\<open>n_test\<close>; \<^verbatim>\<open>None\<close> stands
  for the default 0.25; anything else is refused. The train partition gets the rest,
  and an empty train partition is refused. (The messages are abbreviated.
  \<^verbatim>\<open>ShuffleSplit\<close> validates the two counts once more; counts that are both at
  least 1 pass.)
\<close>

definition complement_train :: "nat \<Rightarrow> int \<Rightarrow> exn + (nat \<times> nat)" where
  "complement_train n_samples n_test =
     (let n_train = int n_samples - n_test in
      if n_train = 0 then Inl (ValueError ''the resulting train set will be empty'')
      else Inr (nat n_train, nat n_test))"

fun validate_shuffle_split :: "(rat \<Rightarrow> nat \<Rightarrow> rat) \<Rightarrow> nat \<Rightarrow> yaml \<Rightarrow> exn + (nat \<times> nat)" where
  "validate_shuffle_split mul n_samples (YFloat f) =
     (if f \<le> 0 \<or> f \<ge> 1 then Inl (ValueError ''test_size should be a float in the (0, 1) range'')
      else complement_train n_samples \<lceil>mul f n_samples\<rceil>)"
| "validate_shuffle_split mul n_samples (YInt k) =
     (if k \<ge> int n_samples \<or> k \<le> 0
      then Inl (ValueError ''test_size should be a positive integer smaller than the number of samples'')
      else complement_train n_samples k)"
| "validate_shuffle_split mul n_samples YNull =
     complement_train n_samples \<lceil>mul (1 / 4) n_samples\<rceil>"
| "validate_shuffle_split mul n_samples _ =
     Inl (ValueError ''Invalid value for train_size or test_size'')"

text \<open>
  \<^verbatim>\<open>train_test_split(df, test_size=..., random_state=...)\<close>, shuffling and not
  stratified: \<^verbatim>\<open>check_random_state\<close> makes a fresh generator from an integer seed and
  falls back on NumPy's global generator (here \<open>ambient\<close>, what that generator would
  return now) when the seed is \<^verbatim>\<open>None\<close>; \<^verbatim>\<open>ShuffleSplit\<close> gives the first
  \<open>n_test\<close> positions of the permutation to the test partition and the next
  \<open>n_train\<close> to the train partition.
\<close>

definition train_test_split ::
  "numpy \<Rightarrow> (nat \<Rightarrow> nat list) \<Rightarrow> dataframe \<Rightarrow> yaml \<Rightarrow> nat option \<Rightarrow> exn + (dataframe \<times> dataframe)" where
  "train_test_split np ambient df test_size random_state =
     (let n_samples = length (index df) in
      case validate_shuffle_split (fmul np) n_samples test_size of
        Inl e \<Rightarrow> Inl e
      | Inr (n_train, n_test) \<Rightarrow>
          (let permutation = (case random_state of
                                None \<Rightarrow> ambient n_samples
                              | Some seed \<Rightarrow> seeded_permutation np seed n_samples);
               ind_test = take n_test permutation;
               ind_train = take n_train (drop n_test permutation)
           in Inr (take_rows df ind_train, take_rows df ind_test)))"

section \<open>The world of a run\<close>

text \<open>
  What the script reads from its environment and what it leaves behind. The first five
  fields are the environment: what opening and parsing a YAML file gives, what
  \<^verbatim>\<open>pd.read_csv\<close> gives for a URL or path, which directory creations and file writes
  fail, and NumPy's global generator. The others are the effects: the files written, the
  directories made, the log, the console, and the arguments \<^verbatim>\<open>pd.read_csv\<close> was
  called with. A write that fails is taken to leave the file as it was.
\<close>

record world =
  config_files :: "string \<Rightarrow> exn + yaml"
  remote :: "string \<Rightarrow> exn + dataframe"
  mkdir_error :: "string \<Rightarrow> exn option"
  write_error :: "string \<Rightarrow> exn option"
  np_global :: "nat \<Rightarrow> nat list"
  files :: "string \<Rightarrow> csv option"
  dirs :: "string set"
  log_records :: "log_record list"
  stdout :: "arg list list"
  fetched :: "string list"

definition logger :: "level \<Rightarrow> string \<Rightarrow> arg list \<Rightarrow> world \<Rightarrow> world" where
  "logger lvl msg args w = w\<lparr>log_records := log_records w @ [(lvl, msg, args)]\<rparr>"

definition print_line :: "arg list \<Rightarrow> world \<Rightarrow> world" where
  "print_line segments w = w\<lparr>stdout := stdout w @ [segments]\<rparr>"

text \<open>\<^verbatim>\<open>os.path.join\<close> of two components, on POSIX.\<close>

definition path_join :: "string \<Rightarrow> string \<Rightarrow> string" where
  "path_join a b =
     (if b \<noteq> [] \<and> hd b = CHR ''/'' then b
      else if a = [] \<or> last a = CHR ''/'' then a @ b
      else a @ ''/'' @ b)"

section \<open>The stages\<close>

text \<open>
  Each stage takes the world and returns its result, \<open>Inl\<close> for a raised exception,
  with the world it leaves. Every \<^verbatim>\<open>except\<close> clause of the source logs and re-raises;
  the clauses of one \<^verbatim>\<open>try\<close> differ in the message only.
\<close>

definition load_params :: "string \<Rightarrow> world \<Rightarrow> (exn + yaml) \<times> world" where
  "load_params params_path w =
     (case config_files w params_path of
        Inr params \<Rightarrow>
          (Inr params, logger DEBUG ''Parameters successfully loaded from %s'' [S params_path] w)
      | Inl e \<Rightarrow>
          (Inl e,
           case e of
             FileNotFoundError _ \<Rightarrow> logger ERROR ''YAML file not found at path: %s'' [S params_path] w
           | YAMLError _ \<Rightarrow> logger ERROR ''Failed to parse YAML file: %s'' [E e] w
           | _ \<Rightarrow> logger ERROR ''Unexpected error while loading parameters: %s'' [E e] w))"

definition load_data :: "string \<Rightarrow> world \<Rightarrow> (exn + dataframe) \<times> world" where
  "load_data data_url w =
     (let url = resolve_url data_url;
          w1 = w\<lparr>fetched := fetched w @ [url]\<rparr>
      in case remote w url of
           Inr df \<Rightarrow> (Inr df, logger DEBUG ''Data successfully loaded from %s'' [S url] w1)
         | Inl e \<Rightarrow>
             (Inl e,
              case e of
                ParserError _ \<Rightarrow> logger ERROR ''CSV parsing error: %s'' [E e] w1
              | _ \<Rightarrow> logger ERROR ''Unexpected error while loading data: %s'' [E e] w1))"

definition preprocess_data :: "dataframe \<Rightarrow> world \<Rightarrow> (exn + dataframe) \<times> world" where
  "preprocess_data df w =
     (case drop_columns [''Unnamed: 2'', ''Unnamed: 3'', ''Unnamed: 4''] df of
        Inr df1 \<Rightarrow>
          (Inr (rename_columns [(''v1'', ''target''), (''v2'', ''text'')] df1),
           logger DEBUG ''Data preprocessing completed successfully'' [] w)
      | Inl e \<Rightarrow>
          (Inl e,
           case e of
             KeyError _ \<Rightarrow> logger ERROR ''Missing expected column in dataset: %s'' [E e] w
           | _ \<Rightarrow> logger ERROR ''Unexpected error during data preprocessing: %s'' [E e] w))"

definition save_failed :: "exn \<Rightarrow> world \<Rightarrow> (exn + unit) \<times> world" where
  "save_failed e w = (Inl e, logger ERROR ''Unexpected error while saving datasets: %s'' [E e] w)"

definition save_data :: "dataframe \<Rightarrow> dataframe \<Rightarrow> string \<Rightarrow> world \<Rightarrow> (exn + unit) \<times> world" where
  "save_data train_data test_data data_path w =
     (let raw_data_path = path_join data_path ''raw'' in
      case mkdir_error w raw_data_path of
        Some e \<Rightarrow> save_failed e w
      | None \<Rightarrow>
          (let w1 = w\<lparr>dirs := insert raw_data_path (dirs w)\<rparr>;
               train_path = path_join raw_data_path ''train.csv''
           in case write_error w1 train_path of
                Some e \<Rightarrow> save_failed e w1
              | None \<Rightarrow>
                  (let w2 = w1\<lparr>files := (files w1)(train_path \<mapsto> to_csv train_data)\<rparr>;
                       test_path = path_join raw_data_path ''test.csv''
                   in case write_error w2 test_path of
                        Some e \<Rightarrow> save_failed e w2
                      | None \<Rightarrow>
                          (let w3 = w2\<lparr>files := (files w2)(test_path \<mapsto> to_csv test_data)\<rparr>
                           in (Inr (), logger DEBUG ''Train and test datasets saved to %s''
                                         [S raw_data_path] w3)))))"

section \<open>The orchestrator\<close>

definition source_url :: string where
  "source_url =
     ''https://github.com/vikashishere/YT-MLOPS-Complete-ML-Pipeline/blob/main/experiments/spam.csv''"

text \<open>The body of the \<^verbatim>\<open>try\<close> of \<^verbatim>\<open>main\<close> (lines 103--120).\<close>

definition main_body :: "numpy \<Rightarrow> world \<Rightarrow> (exn + unit) \<times> world" where
  "main_body np w =
     (let w0 = logger INFO ''Data ingestion process started.'' [] w in
      case load_params ''params.yaml'' w0 of
        (Inl e, w1) \<Rightarrow> (Inl e, w1)
      | (Inr params, w1) \<Rightarrow>
      (case subscript params ''data_ingestion'' of
        Inl e \<Rightarrow> (Inl e, w1)
      | Inr ingestion \<Rightarrow>
      (case subscript ingestion ''test_size'' of
        Inl e \<Rightarrow> (Inl e, w1)
      | Inr test_size \<Rightarrow>
      (case load_data source_url w1 of
        (Inl e, w2) \<Rightarrow> (Inl e, w2)
      | (Inr df, w2) \<Rightarrow>
      (case preprocess_data df w2 of
        (Inl e, w3) \<Rightarrow> (Inl e, w3)
      | (Inr final_df, w3) \<Rightarrow>
      (case train_test_split np (np_global w3) final_df test_size (Some 2) of
        Inl e \<Rightarrow> (Inl e, w3)
      | Inr (train_data, test_data) \<Rightarrow>
      (case save_data train_data test_data ''./data'' w3 of
        (Inl e, w4) \<Rightarrow> (Inl e, w4)
      | (Inr _, w4) \<Rightarrow>
          (Inr (), logger INFO ''Data ingestion completed successfully.'' [] w4))))))))"

text \<open>
  The literal that line 124 prints before the exception, as the bytes of the source
  file.
\<close>

definition error_prefix :: string where
  "error_prefix =
     [CHR 0xE2, CHR 0x80, CHR 0x9A, CHR 0xC3, CHR 0xB9, CHR 0xC3, CHR 0xA5] @ '' Error: ''"

text \<open>
  \<^verbatim>\<open>main\<close>: the \<^verbatim>\<open>except Exception\<close> clause (lines 122--124) logs and prints; it has
  no \<^verbatim>\<open>raise\<close>.
\<close>

definition main :: "numpy \<Rightarrow> world \<Rightarrow> (exn + unit) \<times> world" where
  "main np w =
     (case main_body np w of
        (Inr u, w') \<Rightarrow> (Inr (), w')
      | (Inl e, w') \<Rightarrow>
          (Inr (), print_line [S error_prefix, E e]
                     (logger ERROR ''Data ingestion failed: %s'' [E e] w')))"

text \<open>
  The entry point (lines 128--129) calls \<^verbatim>\<open>main()\<close> and ends: the interpreter exits
  with status 0 when the call returns and with status 1 when an exception leaves it.
\<close>

definition run_script :: "numpy \<Rightarrow> world \<Rightarrow> nat \<times> world" where
  "run_script np w =
     (case main np w of
        (Inr _, w') \<Rightarrow> (0, w')
      | (Inl _, w') \<Rightarrow> (1, w'))"

section \<open>Sample inputs\<close>

text \<open>
  Concrete inputs on which the theorems below are exercised. \<open>plain_numpy\<close> multiplies
  exactly and shuffles by reversal; \<open>sample_world\<close> holds one configuration document
  at \<^verbatim>\<open>params.yaml\<close>, serves one table at the raw form of the source URL, and lets
  every directory creation and every write succeed unless told otherwise.
\<close>

definition plain_numpy :: numpy where
  "plain_numpy = \<lparr>fmul = (\<lambda>f n. f * of_nat n), seeded_permutation = (\<lambda>seed n. rev [0..<n])\<rparr>"

definition raw_source_url :: string where
  "raw_source_url =
     ''https://raw.githubusercontent.com/vikashishere/YT-MLOPS-Complete-ML-Pipeline/main/experiments/spam.csv''"

definition sample_world :: "yaml \<Rightarrow> dataframe \<Rightarrow> (string \<Rightarrow> exn option) \<Rightarrow> world" where
  "sample_world config table wr_error =
     \<lparr>config_files = (\<lambda>p. if p = ''params.yaml'' then Inr config else Inl (FileNotFoundError p)),
      remote = (\<lambda>u. if u = raw_source_url then Inr table else Inl (OtherException ''HTTP Error 404'')),
      mkdir_error = (\<lambda>p. None),
      write_error = wr_error,
      np_global = (\<lambda>n. [0..<n]),
      files = Map.empty,
      dirs = {},
      log_records = [],
      stdout = [],
      fetched = []\<rparr>"

definition config_fifth :: yaml where
  "config_fifth = YMap [(YStr ''data_ingestion'', YMap [(YStr ''test_size'', YFloat (1 / 5))])]"

definition config_no_test_size :: yaml where
  "config_no_test_size = YMap [(YStr ''data_ingestion'', YMap [(YStr ''seed'', YInt 2)])]"

definition spam_table :: dataframe where
  "spam_table =
     \<lparr>index = [0, 1],
      cols = [(''v1'', [Text ''ham'', Text ''spam'']),
              (''v2'', [Text ''see you at five'', Text ''win cash now'']),
              (''Unnamed: 2'', [NaN, NaN]),
              (''Unnamed: 3'', [NaN, NaN]),
              (''Unnamed: 4'', [NaN, NaN])]\<rparr>"

definition table_without_v1 :: dataframe where
  "table_without_v1 =
     \<lparr>index = [0],
      cols = [(''v2'', [Text ''see you at five'']),
              (''Unnamed: 2'', [NaN]),
              (''Unnamed: 3'', [NaN]),
              (''Unnamed: 4'', [NaN])]\<rparr>"

definition table_with_extra :: dataframe where
  "table_with_extra =
     \<lparr>index = [0],
      cols = [(''v1'', [Text ''ham'']),
              (''v2'', [Text ''see you at five'']),
              (''Unnamed: 2'', [NaN]),
              (''Unnamed: 3'', [NaN]),
              (''Unnamed: 4'', [NaN]),
              (''length'', [Number 15])]\<rparr>"


definition processed_spam_table :: dataframe where
  "processed_spam_table =
     \<lparr>index = [0, 1],
      cols = [(''target'', [Text ''ham'', Text ''spam'']),
              (''text'', [Text ''see you at five'', Text ''win cash now''])]\<rparr>"

definition one_row_processed :: dataframe where
  "one_row_processed =
     \<lparr>index = [0], cols = [(''target'', [Text ''ham'']), (''text'', [Text ''see you at five''])]\<rparr>"


text \<open>A disk that fills up while \<^verbatim>\<open>test.csv\<close> is written.\<close>

definition disk_full :: "string \<Rightarrow> exn option" where
  "disk_full p = (if p = ''./data/raw/test.csv'' then Some (OSError ''No space left on device'') else None)"

section \<open>Notions used in the statements\<close>



text \<open>
  A configuration has the nested key \<^verbatim>\<open>data_ingestion.test_size\<close> when it is a
  mapping whose entry \<^verbatim>\<open>data_ingestion\<close> is a mapping with an entry \<^verbatim>\<open>test_size\<close>.
\<close>

fun has_test_size :: "yaml \<Rightarrow> bool" where
  "has_test_size (YMap m) =
     (case map_of m (YStr ''data_ingestion'') of
        Some (YMap d) \<Rightarrow> map_of d (YStr ''test_size'') \<noteq> None
      | _ \<Rightarrow> False)"
| "has_test_size _ = False"

definition key_or_type_error :: "exn \<Rightarrow> bool" where
  "key_or_type_error e = (case e of KeyError _ \<Rightarrow> True | TypeError _ \<Rightarrow> True | _ \<Rightarrow> False)"

section \<open>Properties of the string operations\<close>

lemma py_in_sublist: "py_in sub s \<longleftrightarrow> sublist sub s"
  by (induction s) (auto simp: sublist_Cons_right)

lemma py_replace_absent: "\<not> sublist old s \<Longrightarrow> py_replace old new s = s"
proof (induction s)
  case Nil
  then show ?case by auto
next
  case (Cons c cs)
  then show ?case by (auto simp: sublist_Cons_right)
qed

lemma prefix_append_butlast:
  assumes "old \<noteq> []" "prefix old (p @ old @ r)" "p \<noteq> []"
  shows "prefix old (p @ butlast old)"
proof -
  have "length old \<le> length (p @ butlast old)" using assms(3) by (cases p) auto
  moreover have "p @ old @ r = (p @ butlast old) @ (last old # r)"
    using assms(1) by (metis append.assoc append_Cons append_Nil append_butlast_last_id)
  ultimately show ?thesis using assms(2)
    by (metis prefix_length_prefix prefixI linorder_le_cases prefix_order.dual_order.refl)
qed

text \<open>
  The two lemmas \<open>py_replace_absent\<close> and \<open>py_replace_leftmost\<close> determine
  \<open>py_replace\<close> for a non-empty pattern: nothing changes where the pattern does not
  occur, and otherwise the leftmost occurrence is substituted and the scan goes on behind
  it.
\<close>

lemma py_replace_leftmost:
  "old \<noteq> [] \<Longrightarrow> \<not> sublist old (p @ butlast old) \<Longrightarrow>
     py_replace old new (p @ old @ r) = p @ new @ py_replace old new r"
proof (induction p)
  case Nil
  then show ?case by (cases old) auto
next
  case (Cons a p)
  have np: "\<not> prefix old ((a # p) @ old @ r)"
    using Cons.prems prefix_append_butlast[of old "a # p" r] by (auto simp: sublist_Cons_right)
  have "\<not> sublist old (p @ butlast old)"
    using Cons.prems(2) by (auto simp: sublist_Cons_right)
  with Cons have "py_replace old new (p @ old @ r) = p @ new @ py_replace old new r" by simp
  with np Cons.prems(1) show ?case by simp
qed

section \<open>The data fetcher\<close>

lemma fetched_logger: "fetched (logger lvl msg args w) = fetched w"
  by (simp add: logger_def)

lemma load_data_fetched: "fetched (snd (load_data url w)) = fetched w @ [resolve_url url]"
  by (simp add: load_data_def Let_def fetched_logger split: sum.split exn.split)

lemma load_data_result: "fst (load_data url w) = remote w (resolve_url url)"
  by (simp add: load_data_def Let_def split: sum.split exn.split)

text \<open>
  Claim C1. \<^verbatim>\<open>load_data\<close> hands \<^verbatim>\<open>pd.read_csv\<close> exactly one location and returns
  what the read gives. When the URL contains \<^verbatim>\<open>github.com\<close> and nowhere
  \<^verbatim>\<open>raw\<close>, that location is the URL with every \<^verbatim>\<open>blob/\<close> removed and then every
  \<^verbatim>\<open>github.com\<close> replaced by \<^verbatim>\<open>raw.githubusercontent.com\<close>; when the URL contains
  \<^verbatim>\<open>raw\<close>, or does not contain \<^verbatim>\<open>github.com\<close>, it is the URL unchanged.
  "Contains" is stated with \<open>sublist\<close>, not with the scan the code runs.
\<close>

theorem load_data_url_rule:
  "(sublist ''github.com'' url \<and> \<not> sublist ''raw'' url \<longrightarrow>
      fetched (snd (load_data url w)) =
        fetched w @ [py_replace ''github.com'' ''raw.githubusercontent.com''
                       (py_replace ''blob/'' '''' url)] \<and>
      fst (load_data url w) =
        remote w (py_replace ''github.com'' ''raw.githubusercontent.com''
                    (py_replace ''blob/'' '''' url))) \<and>
   (sublist ''raw'' url \<or> \<not> sublist ''github.com'' url \<longrightarrow>
      fetched (snd (load_data url w)) = fetched w @ [url] \<and>
      fst (load_data url w) = remote w url)"
  by (simp add: load_data_fetched load_data_result resolve_url_def py_in_sublist)

text \<open>
  The rule at the orchestrator's own URL (rewritten to its raw form), at a URL that is
  already raw, and at a local path.
\<close>

theorem load_data_url_rule_witness:
  "sublist ''github.com'' source_url \<and> \<not> sublist ''raw'' source_url \<and>
   fetched (snd (load_data source_url (sample_world config_fifth spam_table (\<lambda>p. None)))) =
     [raw_source_url] \<and>
   fst (load_data source_url (sample_world config_fifth spam_table (\<lambda>p. None))) = Inr spam_table \<and>
   sublist ''raw'' raw_source_url \<and>
   fetched (snd (load_data raw_source_url (sample_world config_fifth spam_table (\<lambda>p. None)))) =
     [raw_source_url] \<and>
   \<not> sublist ''github.com'' ''data/spam.csv'' \<and>
   fetched (snd (load_data ''data/spam.csv'' (sample_world config_fifth spam_table (\<lambda>p. None)))) =
     [''data/spam.csv'']"
proof -
  let ?w = "sample_world config_fifth spam_table (\<lambda>p. None)"
  have a: "sublist ''github.com'' source_url \<and> \<not> sublist ''raw'' source_url"
    unfolding py_in_sublist [symmetric] source_url_def by simp
  have b: "sublist ''raw'' raw_source_url"
    unfolding py_in_sublist [symmetric] raw_source_url_def by simp
  have c: "\<not> sublist ''github.com'' ''data/spam.csv''"
    unfolding py_in_sublist [symmetric] by simp
  have r: "py_replace ''github.com'' ''raw.githubusercontent.com''
             (py_replace ''blob/'' '''' source_url) = raw_source_url"
    unfolding source_url_def raw_source_url_def by simp
  have f: "fetched ?w = []" "remote ?w raw_source_url = Inr spam_table"
    by (simp_all add: sample_world_def)
  show ?thesis
    using a b c r f load_data_url_rule [of source_url ?w]
      load_data_url_rule [of raw_source_url ?w] load_data_url_rule [of "''data/spam.csv''" ?w]
    by simp
qed

section \<open>The preprocessor\<close>

lemma drop_columns_present:
  "set ls \<subseteq> set (labels df) \<Longrightarrow>
     drop_columns ls df = Inr (df\<lparr>cols := filter (\<lambda>c. fst c \<notin> set ls) (cols df)\<rparr>)"
proof -
  assume "set ls \<subseteq> set (labels df)"
  then have "filter (\<lambda>l. l \<notin> set (labels df)) ls = []"
    by (auto simp: filter_empty_conv)
  then show ?thesis by (simp add: drop_columns_def)
qed

lemma drop_columns_absent:
  "\<not> set ls \<subseteq> set (labels df) \<Longrightarrow> \<exists>msg. drop_columns ls df = Inl (KeyError msg)"
proof -
  assume "\<not> set ls \<subseteq> set (labels df)"
  then have "filter (\<lambda>l. l \<notin> set (labels df)) ls \<noteq> []"
    by (auto simp: filter_empty_conv)
  then show ?thesis by (auto simp: drop_columns_def split: list.split)
qed

lemma preprocess_data_present:
  "set [''Unnamed: 2'', ''Unnamed: 3'', ''Unnamed: 4''] \<subseteq> set (labels df) \<Longrightarrow>
     fst (preprocess_data df w) =
       Inr (rename_columns [(''v1'', ''target''), (''v2'', ''text'')]
              (df\<lparr>cols := filter (\<lambda>c. fst c \<notin> set [''Unnamed: 2'', ''Unnamed: 3'', ''Unnamed: 4''])
                              (cols df)\<rparr>))"
  unfolding preprocess_data_def by (simp only: drop_columns_present sum.case fst_conv)

lemma preprocess_data_absent:
  "\<not> set [''Unnamed: 2'', ''Unnamed: 3'', ''Unnamed: 4''] \<subseteq> set (labels df) \<Longrightarrow>
     \<exists>msg. fst (preprocess_data df w) = Inl (KeyError msg)"
proof -
  assume "\<not> set [''Unnamed: 2'', ''Unnamed: 3'', ''Unnamed: 4''] \<subseteq> set (labels df)"
  from drop_columns_absent [OF this] obtain msg where
    "drop_columns [''Unnamed: 2'', ''Unnamed: 3'', ''Unnamed: 4''] df = Inl (KeyError msg)" ..
  then show ?thesis unfolding preprocess_data_def by (simp only: sum.case fst_conv) blast
qed

lemma preprocess_data_success:
  assumes "fst (preprocess_data df w) = Inr df'"
  shows "set [''Unnamed: 2'', ''Unnamed: 3'', ''Unnamed: 4''] \<subseteq> set (labels df)"
    and "df' = rename_columns [(''v1'', ''target''), (''v2'', ''text'')]
                 (df\<lparr>cols := filter (\<lambda>c. fst c \<notin> set [''Unnamed: 2'', ''Unnamed: 3'', ''Unnamed: 4''])
                                 (cols df)\<rparr>)"
proof -
  show p: "set [''Unnamed: 2'', ''Unnamed: 3'', ''Unnamed: 4''] \<subseteq> set (labels df)"
    using assms preprocess_data_absent [of df w] by (metis Inl_Inr_False)
  show "df' = rename_columns [(''v1'', ''target''), (''v2'', ''text'')]
                 (df\<lparr>cols := filter (\<lambda>c. fst c \<notin> set [''Unnamed: 2'', ''Unnamed: 3'', ''Unnamed: 4''])
                                 (cols df)\<rparr>)"
    using assms preprocess_data_present [OF p, of w] by simp
qed

lemma preprocess_data_cols:
  assumes "fst (preprocess_data df w) = Inr df'"
  shows "cols df' =
           map (\<lambda>c. (if fst c = ''v1'' then ''target'' else if fst c = ''v2'' then ''text'' else fst c,
                      snd c))
             (filter (\<lambda>c. fst c \<noteq> ''Unnamed: 2'' \<and> fst c \<noteq> ''Unnamed: 3'' \<and> fst c \<noteq> ''Unnamed: 4'')
                (cols df))"
  unfolding preprocess_data_success(2) [OF assms] by (simp add: rename_columns_def)

lemma preprocess_data_index:
  assumes "fst (preprocess_data df w) = Inr df'"
  shows "index df' = index df"
  unfolding preprocess_data_success(2) [OF assms] by (simp add: rename_columns_def)

lemma kept_labels:
  "filter (\<lambda>l. l \<noteq> ''Unnamed: 2'' \<and> l \<noteq> ''Unnamed: 3'' \<and> l \<noteq> ''Unnamed: 4'')
     [''v1'', ''v2'', ''Unnamed: 2'', ''Unnamed: 3'', ''Unnamed: 4''] = [''v1'', ''v2'']"
  by simp

lemma filter_set_cong: "set xs = set ys \<Longrightarrow> set (filter P xs) = set (filter P ys)"
  by auto

lemma distinct_same_set_length:
  "distinct xs \<Longrightarrow> distinct ys \<Longrightarrow> set xs = set ys \<Longrightarrow> length xs = length ys"
  by (metis distinct_card)

lemma two_kept:
  assumes d: "distinct ls"
    and s: "set ls = set [''v1'', ''v2'', ''Unnamed: 2'', ''Unnamed: 3'', ''Unnamed: 4'']"
  shows "length (filter (\<lambda>l. l \<noteq> ''Unnamed: 2'' \<and> l \<noteq> ''Unnamed: 3'' \<and> l \<noteq> ''Unnamed: 4'') ls) = 2"
    and "set (filter (\<lambda>l. l \<noteq> ''Unnamed: 2'' \<and> l \<noteq> ''Unnamed: 3'' \<and> l \<noteq> ''Unnamed: 4'') ls)
           = {''v1'', ''v2''}"
proof -
  let ?P = "\<lambda>l. l \<noteq> ''Unnamed: 2'' \<and> l \<noteq> ''Unnamed: 3'' \<and> l \<noteq> ''Unnamed: 4''"
  have "set (filter ?P ls) = set (filter ?P [''v1'', ''v2'', ''Unnamed: 2'', ''Unnamed: 3'', ''Unnamed: 4''])"
    using s by (rule filter_set_cong)
  then have ks: "set (filter ?P ls) = set [''v1'', ''v2'']"
    by (simp only: kept_labels)
  show "set (filter ?P ls) = {''v1'', ''v2''}"
    unfolding ks by (simp only: list.set)
  have a: "distinct (filter ?P ls)" using d by (rule distinct_filter)
  have b: "distinct [''v1'', ''v2'']" by simp
  have "length (filter ?P ls) = length [''v1'', ''v2'']"
    using a b ks by (rule distinct_same_set_length)
  also have "\<dots> = 2" by simp
  finally show "length (filter ?P ls) = 2" .
qed

lemma renamed_member:
  "(a, x) \<in> set xs \<Longrightarrow> keep (a, x) \<Longrightarrow>
     (f a, x) \<in> set (map (\<lambda>c. (f (fst c), snd c)) (filter keep xs))"
  by (induction xs) auto

lemma map_snd_renamed: "map snd (map (\<lambda>c. (f (fst c), snd c)) xs) = map snd xs"
  by (induction xs) auto

lemma map_fst_renamed:
  "map fst (map (\<lambda>c. (f (fst c), snd c)) (filter (\<lambda>c. P (fst c)) xs)) = map f (filter P (map fst xs))"
  by (induction xs) auto

text \<open>
  Claim C2, as amended. \<^verbatim>\<open>preprocess_data\<close> raises \<^verbatim>\<open>KeyError\<close> when one of the
  three dropped names \<^verbatim>\<open>Unnamed: 2\<close>, \<^verbatim>\<open>Unnamed: 3\<close>, \<^verbatim>\<open>Unnamed: 4\<close> is not a
  column of the table, and returns a table when all three are columns, whether or not
  \<^verbatim>\<open>v1\<close> and \<^verbatim>\<open>v2\<close> are: the rename step ignores a name it does not find.
\<close>

theorem preprocess_data_schema_error:
  "(''Unnamed: 2'' \<notin> set (labels df) \<or> ''Unnamed: 3'' \<notin> set (labels df) \<or>
    ''Unnamed: 4'' \<notin> set (labels df) \<longrightarrow>
      (\<exists>msg. fst (preprocess_data df w) = Inl (KeyError msg))) \<and>
   (''Unnamed: 2'' \<in> set (labels df) \<and> ''Unnamed: 3'' \<in> set (labels df) \<and>
    ''Unnamed: 4'' \<in> set (labels df) \<longrightarrow>
      (\<exists>df'. fst (preprocess_data df w) = Inr df'))"
  using preprocess_data_present [of df w] preprocess_data_absent [of df w] by auto

text \<open>The table that lacks \<^verbatim>\<open>v1\<close> is accepted; the processed table is refused.\<close>

theorem preprocess_data_schema_error_witness:
  "''Unnamed: 2'' \<notin> set (labels processed_spam_table) \<and>
   (\<exists>msg. fst (preprocess_data processed_spam_table
               (sample_world config_fifth spam_table (\<lambda>p. None))) = Inl (KeyError msg)) \<and>
   ''Unnamed: 2'' \<in> set (labels table_without_v1) \<and>
   ''Unnamed: 3'' \<in> set (labels table_without_v1) \<and>
   ''Unnamed: 4'' \<in> set (labels table_without_v1) \<and>
   (\<exists>df'. fst (preprocess_data table_without_v1
               (sample_world config_fifth spam_table (\<lambda>p. None))) = Inr df')"
  using preprocess_data_schema_error [of processed_spam_table
          "sample_world config_fifth spam_table (\<lambda>p. None)"]
        preprocess_data_schema_error [of table_without_v1
          "sample_world config_fifth spam_table (\<lambda>p. None)"]
  by (simp add: labels_def processed_spam_table_def table_without_v1_def)

text \<open>
  Claim C2 as stated fails: \<open>table_without_v1\<close> has no column \<^verbatim>\<open>v1\<close>, and
  \<^verbatim>\<open>preprocess_data\<close> returns a table for it.
\<close>

theorem preprocess_data_missing_v1_counterexample:
  "''v1'' \<notin> set (labels table_without_v1) \<and>
   fst (preprocess_data table_without_v1 (sample_world config_fifth table_without_v1 (\<lambda>p. None))) =
     Inr \<lparr>index = [0], cols = [(''text'', [Text ''see you at five''])]\<rparr>"
  by (simp add: preprocess_data_def drop_columns_def rename_columns_def labels_def
        table_without_v1_def)

text \<open>
  Claim C3, as amended. For a table that has the five columns, \<^verbatim>\<open>preprocess_data\<close>
  returns the table with the same rows whose columns are those of the input, in order,
  without the ones named \<^verbatim>\<open>Unnamed: 2\<close>, \<^verbatim>\<open>Unnamed: 3\<close>, \<^verbatim>\<open>Unnamed: 4\<close> and with
  \<^verbatim>\<open>v1\<close> renamed to \<^verbatim>\<open>target\<close> and \<^verbatim>\<open>v2\<close> to \<^verbatim>\<open>text\<close>. When the input has these
  five columns once each and no other, exactly two columns remain, \<^verbatim>\<open>target\<close> and
  \<^verbatim>\<open>text\<close>.
\<close>

theorem preprocess_data_processed_table:
  assumes "set [''v1'', ''v2'', ''Unnamed: 2'', ''Unnamed: 3'', ''Unnamed: 4''] \<subseteq> set (labels df)"
  shows "\<exists>df'. fst (preprocess_data df w) = Inr df' \<and>
           index df' = index df \<and>
           cols df' =
             map (\<lambda>c. (if fst c = ''v1'' then ''target'' else if fst c = ''v2'' then ''text''
                        else fst c, snd c))
               (filter (\<lambda>c. fst c \<noteq> ''Unnamed: 2'' \<and> fst c \<noteq> ''Unnamed: 3'' \<and>
                             fst c \<noteq> ''Unnamed: 4'') (cols df)) \<and>
           (distinct (labels df) \<and>
            set (labels df) = set [''v1'', ''v2'', ''Unnamed: 2'', ''Unnamed: 3'', ''Unnamed: 4''] \<longrightarrow>
              length (cols df') = 2 \<and> set (labels df') = {''target'', ''text''})"
proof -
  let ?P = "\<lambda>l. l \<noteq> ''Unnamed: 2'' \<and> l \<noteq> ''Unnamed: 3'' \<and> l \<noteq> ''Unnamed: 4''"
  let ?ren = "\<lambda>l. if l = ''v1'' then ''target'' else if l = ''v2'' then ''text'' else l"
  from assms have "set [''Unnamed: 2'', ''Unnamed: 3'', ''Unnamed: 4''] \<subseteq> set (labels df)"
    by simp
  from preprocess_data_present [OF this, of w] obtain df' where
    ok: "fst (preprocess_data df w) = Inr df'" by blast
  have c: "cols df' = map (\<lambda>c. (?ren (fst c), snd c)) (filter (\<lambda>c. ?P (fst c)) (cols df))"
    using preprocess_data_cols [OF ok] .
  have l: "labels df' = map ?ren (filter ?P (labels df))"
    unfolding labels_def c by (rule map_fst_renamed)
  have "length (cols df') = 2 \<and> set (labels df') = {''target'', ''text''}"
    if d: "distinct (labels df)"
      and s: "set (labels df) = set [''v1'', ''v2'', ''Unnamed: 2'', ''Unnamed: 3'', ''Unnamed: 4'']"
  proof -
    have "length (labels df') = 2"
      unfolding l length_map by (rule two_kept(1) [OF d s])
    then have len: "length (cols df') = 2" by (simp add: labels_def)
    have "set (labels df') = ?ren ` {''v1'', ''v2''}"
      unfolding l set_map two_kept(2) [OF d s] ..
    also have "\<dots> = {''target'', ''text''}" by (simp add: insert_commute)
    finally show ?thesis using len by simp
  qed
  with ok c preprocess_data_index [OF ok] show ?thesis by blast
qed

theorem preprocess_data_processed_table_witness:
  "set [''v1'', ''v2'', ''Unnamed: 2'', ''Unnamed: 3'', ''Unnamed: 4''] \<subseteq> set (labels spam_table) \<and>
   distinct (labels spam_table) \<and>
   set (labels spam_table) = set [''v1'', ''v2'', ''Unnamed: 2'', ''Unnamed: 3'', ''Unnamed: 4''] \<and>
   fst (preprocess_data spam_table (sample_world config_fifth spam_table (\<lambda>p. None))) =
     Inr processed_spam_table \<and>
   length (cols processed_spam_table) = 2 \<and>
   set (labels processed_spam_table) = {''target'', ''text''}"
proof -
  have a: "set [''v1'', ''v2'', ''Unnamed: 2'', ''Unnamed: 3'', ''Unnamed: 4'']
             \<subseteq> set (labels spam_table)"
    by (simp add: labels_def spam_table_def)
  have b: "distinct (labels spam_table)"
    by (simp add: labels_def spam_table_def)
  have c: "set (labels spam_table) =
             set [''v1'', ''v2'', ''Unnamed: 2'', ''Unnamed: 3'', ''Unnamed: 4'']"
    by (simp add: labels_def spam_table_def)
  from preprocess_data_processed_table [OF a, of "sample_world config_fifth spam_table (\<lambda>p. None)"]
  obtain df' where
    r: "fst (preprocess_data spam_table (sample_world config_fifth spam_table (\<lambda>p. None))) = Inr df'"
    and i: "index df' = index spam_table"
    and k: "cols df' =
              map (\<lambda>c. (if fst c = ''v1'' then ''target'' else if fst c = ''v2'' then ''text''
                         else fst c, snd c))
                (filter (\<lambda>c. fst c \<noteq> ''Unnamed: 2'' \<and> fst c \<noteq> ''Unnamed: 3'' \<and>
                              fst c \<noteq> ''Unnamed: 4'') (cols spam_table))"
    and t: "length (cols df') = 2 \<and> set (labels df') = {''target'', ''text''}"
    using b c by blast
  have "df' = processed_spam_table"
    using i k by (cases df') (simp add: spam_table_def processed_spam_table_def)
  with a b c r t show ?thesis by simp
qed

text \<open>
  Claim C3 as stated fails: \<open>table_with_extra\<close> contains the five columns and a sixth,
  and three columns remain.
\<close>

theorem preprocess_data_extra_column_counterexample:
  "set [''v1'', ''v2'', ''Unnamed: 2'', ''Unnamed: 3'', ''Unnamed: 4'']
     \<subseteq> set (labels table_with_extra) \<and>
   fst (preprocess_data table_with_extra (sample_world config_fifth table_with_extra (\<lambda>p. None))) =
     Inr \<lparr>index = [0],
          cols = [(''target'', [Text ''ham'']), (''text'', [Text ''see you at five'']),
                  (''length'', [Number 15])]\<rparr>"
  by (simp add: preprocess_data_def drop_columns_def rename_columns_def labels_def
        table_with_extra_def)

text \<open>
  Claim C7. A table that \<^verbatim>\<open>preprocess_data\<close> has returned is refused by a second
  call, in whatever world, with \<^verbatim>\<open>KeyError\<close>: none of its columns is named
  \<^verbatim>\<open>Unnamed: 2\<close>, \<^verbatim>\<open>Unnamed: 3\<close> or \<^verbatim>\<open>Unnamed: 4\<close> any more.
\<close>

theorem preprocess_data_twice_fails:
  assumes "fst (preprocess_data df w) = Inr df'"
  shows "\<exists>msg. fst (preprocess_data df' w') = Inl (KeyError msg)"
proof -
  have "''Unnamed: 2'' \<notin> set (labels df')"
    unfolding labels_def preprocess_data_cols [OF assms] by (auto split: if_splits)
  then have "\<not> set [''Unnamed: 2'', ''Unnamed: 3'', ''Unnamed: 4''] \<subseteq> set (labels df')"
    by simp
  then show ?thesis by (rule preprocess_data_absent)
qed

theorem preprocess_data_twice_fails_witness:
  "fst (preprocess_data spam_table (sample_world config_fifth spam_table (\<lambda>p. None))) =
     Inr processed_spam_table \<and>
   (\<exists>msg. fst (preprocess_data processed_spam_table
               (sample_world config_fifth spam_table (\<lambda>p. None))) = Inl (KeyError msg))"
proof -
  have a: "fst (preprocess_data spam_table (sample_world config_fifth spam_table (\<lambda>p. None))) =
             Inr processed_spam_table"
    by (simp add: preprocess_data_def drop_columns_def rename_columns_def labels_def
          spam_table_def processed_spam_table_def)
  from preprocess_data_twice_fails [OF a] a show ?thesis by blast
qed

text \<open>
  Claim C9. When \<^verbatim>\<open>preprocess_data\<close> returns a table, its row labels are those of the
  input in the same order, the cells of the columns it keeps are those of the input,
  column by column, and every column the input had under \<^verbatim>\<open>v1\<close> (under \<^verbatim>\<open>v2\<close>) is
  a column of the result under \<^verbatim>\<open>target\<close> (under \<^verbatim>\<open>text\<close>) with the same cells.
\<close>

theorem preprocess_data_keeps_rows:
  assumes "fst (preprocess_data df w) = Inr df'"
  shows "index df' = index df \<and>
         map snd (cols df') =
           map snd (filter (\<lambda>c. fst c \<noteq> ''Unnamed: 2'' \<and> fst c \<noteq> ''Unnamed: 3'' \<and>
                                 fst c \<noteq> ''Unnamed: 4'') (cols df)) \<and>
         (\<forall>cells. (''v1'', cells) \<in> set (cols df) \<longrightarrow> (''target'', cells) \<in> set (cols df')) \<and>
         (\<forall>cells. (''v2'', cells) \<in> set (cols df) \<longrightarrow> (''text'', cells) \<in> set (cols df'))"
proof -
  let ?keep = "\<lambda>c::string \<times> cell list.
                 fst c \<noteq> ''Unnamed: 2'' \<and> fst c \<noteq> ''Unnamed: 3'' \<and> fst c \<noteq> ''Unnamed: 4''"
  let ?ren = "\<lambda>l. if l = ''v1'' then ''target'' else if l = ''v2'' then ''text'' else l"
  have c: "cols df' = map (\<lambda>c. (?ren (fst c), snd c)) (filter ?keep (cols df))"
    using preprocess_data_cols [OF assms] .
  have m: "map snd (cols df') = map snd (filter ?keep (cols df))"
    unfolding c by (rule map_snd_renamed)
  have t: "(''target'', cells) \<in> set (cols df')" if "(''v1'', cells) \<in> set (cols df)" for cells
  proof -
    have "?keep (''v1'', cells)" by simp
    from renamed_member [of "''v1''" cells "cols df" ?keep ?ren, OF that this]
    have "(?ren ''v1'', cells) \<in> set (cols df')" unfolding c .
    then show ?thesis by simp
  qed
  have x: "(''text'', cells) \<in> set (cols df')" if "(''v2'', cells) \<in> set (cols df)" for cells
  proof -
    have "?keep (''v2'', cells)" by simp
    from renamed_member [of "''v2''" cells "cols df" ?keep ?ren, OF that this]
    have "(?ren ''v2'', cells) \<in> set (cols df')" unfolding c .
    then show ?thesis by simp
  qed
  from preprocess_data_index [OF assms] m t x show ?thesis by blast
qed

theorem preprocess_data_keeps_rows_witness:
  "fst (preprocess_data spam_table (sample_world config_fifth spam_table (\<lambda>p. None))) =
     Inr processed_spam_table \<and>
   index processed_spam_table = index spam_table \<and>
   (''v1'', [Text ''ham'', Text ''spam'']) \<in> set (cols spam_table) \<and>
   (''target'', [Text ''ham'', Text ''spam'']) \<in> set (cols processed_spam_table) \<and>
   (''v2'', [Text ''see you at five'', Text ''win cash now'']) \<in> set (cols spam_table) \<and>
   (''text'', [Text ''see you at five'', Text ''win cash now'']) \<in> set (cols processed_spam_table)"
proof -
  have a: "fst (preprocess_data spam_table (sample_world config_fifth spam_table (\<lambda>p. None))) =
             Inr processed_spam_table"
    by (simp add: preprocess_data_def drop_columns_def rename_columns_def labels_def
          spam_table_def processed_spam_table_def)
  have b: "(''v1'', [Text ''ham'', Text ''spam'']) \<in> set (cols spam_table)"
    "(''v2'', [Text ''see you at five'', Text ''win cash now'']) \<in> set (cols spam_table)"
    by (simp_all add: spam_table_def)
  from preprocess_data_keeps_rows [OF a] a b show ?thesis by blast
qed

section \<open>The split\<close>















lemma ceiling_two_fifths: "\<lceil>2 / 5 :: rat\<rceil> = 1"
  by (rule ceiling_unique) simp_all








section \<open>The orchestrator's failures\<close>

lemma subscript_error: "subscript y key = Inl e \<Longrightarrow> key_or_type_error e"
  by (cases y) (auto simp: key_or_type_error_def split: option.splits)

lemma subscript_missing:
  assumes "\<not> has_test_size params"
  shows "(\<exists>e. subscript params ''data_ingestion'' = Inl e) \<or>
         (\<exists>d e. subscript params ''data_ingestion'' = Inr d \<and> subscript d ''test_size'' = Inl e)"
proof (cases "subscript params ''data_ingestion''")
  case (Inl e)
  then show ?thesis by blast
next
  case (Inr d)
  then obtain m where m: "params = YMap m" "map_of m (YStr ''data_ingestion'') = Some d"
    by (cases params) (auto split: option.splits)
  have "\<exists>e. subscript d ''test_size'' = Inl e"
  proof (cases d)
    case (YMap dm)
    with assms m have "map_of dm (YStr ''test_size'') = None" by simp
    with YMap show ?thesis by simp
  qed simp_all
  with Inr show ?thesis by blast
qed

lemma config_files_logger: "config_files (logger lvl msg args w) = config_files w"
  by (simp add: logger_def)

lemma load_params_ok:
  "config_files w path = Inr params \<Longrightarrow>
     load_params path w =
       (Inr params, logger DEBUG ''Parameters successfully loaded from %s'' [S path] w)"
  by (simp add: load_params_def)

lemma main_body_missing_key:
  assumes c: "config_files w ''params.yaml'' = Inr params" and h: "\<not> has_test_size params"
  shows "\<exists>e. key_or_type_error e \<and>
           main_body np w =
             (Inl e, logger DEBUG ''Parameters successfully loaded from %s'' [S ''params.yaml'']
                       (logger INFO ''Data ingestion process started.'' [] w))"
proof -
  let ?w0 = "logger INFO ''Data ingestion process started.'' [] w"
  let ?w1 = "logger DEBUG ''Parameters successfully loaded from %s'' [S ''params.yaml''] ?w0"
  have lp: "load_params ''params.yaml'' ?w0 = (Inr params, ?w1)"
    using c by (intro load_params_ok) (simp only: config_files_logger)
  from subscript_missing [OF h] show ?thesis
  proof
    assume "\<exists>e. subscript params ''data_ingestion'' = Inl e"
    then obtain e where e: "subscript params ''data_ingestion'' = Inl e" ..
    have "main_body np w = (Inl e, ?w1)"
      unfolding main_body_def Let_def lp by (simp only: e prod.case sum.case)
    with subscript_error [OF e] show ?thesis by blast
  next
    assume "\<exists>d e. subscript params ''data_ingestion'' = Inr d \<and> subscript d ''test_size'' = Inl e"
    then obtain d e where d: "subscript params ''data_ingestion'' = Inr d"
      and e: "subscript d ''test_size'' = Inl e" by blast
    have "main_body np w = (Inl e, ?w1)"
      unfolding main_body_def Let_def lp by (simp only: d e prod.case sum.case)
    with subscript_error [OF e] show ?thesis by blast
  qed
qed

lemma fetched_print_line: "fetched (print_line segs w) = fetched w"
  by (simp add: print_line_def)

lemma main_cases:
  "(main_body np w = (Inl e, w') \<longrightarrow>
      main np w = (Inr (), print_line [S error_prefix, E e]
                             (logger ERROR ''Data ingestion failed: %s'' [E e] w'))) \<and>
   (main_body np w = (Inr u, w') \<longrightarrow> main np w = (Inr (), w'))"
  by (simp add: main_def)

lemma resolve_source_url: "resolve_url source_url = raw_source_url"
  unfolding resolve_url_def source_url_def raw_source_url_def by simp

lemma main_body_sample_ok:
  "fst (main_body plain_numpy (sample_world config_fifth spam_table (\<lambda>p. None))) = Inr ()"
  by (simp add: main_body_def load_params_def load_data_def preprocess_data_def save_data_def
        train_test_split_def complement_train_def drop_columns_def rename_columns_def
        labels_def logger_def path_join_def Let_def resolve_source_url
        sample_world_def config_fifth_def spam_table_def plain_numpy_def ceiling_two_fifths)

lemma main_body_sample_missing_key:
  "fst (main_body plain_numpy (sample_world config_no_test_size spam_table (\<lambda>p. None))) =
     Inl (KeyError ''test_size'')"
  by (simp add: main_body_def load_params_def logger_def Let_def
        sample_world_def config_no_test_size_def)

lemma main_body_sample_schema:
  "fst (main_body plain_numpy (sample_world config_fifth processed_spam_table (\<lambda>p. None))) =
     Inl (KeyError ''['Unnamed: 2', 'Unnamed: 3', 'Unnamed: 4'] not found in axis'')"
  by (simp add: main_body_def load_params_def load_data_def preprocess_data_def
        drop_columns_def labels_def logger_def Let_def resolve_source_url py_repr_list_def
        sample_world_def config_fifth_def processed_spam_table_def upt_rec)

text \<open>
  Claim C6. When \<^verbatim>\<open>params.yaml\<close> loads and the configuration lacks the nested key
  \<^verbatim>\<open>data_ingestion.test_size\<close>, line 107 raises \<^verbatim>\<open>KeyError\<close> or
  \<^verbatim>\<open>TypeError\<close> inside the \<^verbatim>\<open>try\<close> of \<^verbatim>\<open>main\<close>, the failure is logged, and
  \<^verbatim>\<open>pd.read_csv\<close> is never called in the run: the list of fetched locations is what
  it was before.
\<close>

theorem missing_test_size_no_fetch:
  assumes "config_files w ''params.yaml'' = Inr params" and "\<not> has_test_size params"
  shows "(\<exists>e. fst (main_body np w) = Inl e \<and> key_or_type_error e \<and>
              last (log_records (snd (main np w))) = (ERROR, ''Data ingestion failed: %s'', [E e])) \<and>
         fetched (snd (main_body np w)) = fetched w \<and>
         fetched (snd (main np w)) = fetched w"
proof -
  from main_body_missing_key [OF assms, of np] obtain e where
    k: "key_or_type_error e"
    and b: "main_body np w =
             (Inl e, logger DEBUG ''Parameters successfully loaded from %s'' [S ''params.yaml'']
                       (logger INFO ''Data ingestion process started.'' [] w))"
    by blast
  from main_cases [of np w e] b have
    m: "main np w = (Inr (), print_line [S error_prefix, E e]
          (logger ERROR ''Data ingestion failed: %s'' [E e]
            (logger DEBUG ''Parameters successfully loaded from %s'' [S ''params.yaml'']
               (logger INFO ''Data ingestion process started.'' [] w))))"
    by blast
  have "fst (main_body np w) = Inl e" using b by simp
  moreover have "last (log_records (snd (main np w))) = (ERROR, ''Data ingestion failed: %s'', [E e])"
    unfolding m by (simp add: print_line_def logger_def)
  moreover have "fetched (snd (main_body np w)) = fetched w"
    unfolding b by (simp add: fetched_logger)
  moreover have "fetched (snd (main np w)) = fetched w"
    unfolding m by (simp add: fetched_logger fetched_print_line)
  ultimately show ?thesis using k by blast
qed

theorem missing_test_size_no_fetch_witness:
  "config_files (sample_world config_no_test_size spam_table (\<lambda>p. None)) ''params.yaml'' =
     Inr config_no_test_size \<and>
   \<not> has_test_size config_no_test_size \<and>
   fst (main_body plain_numpy (sample_world config_no_test_size spam_table (\<lambda>p. None))) =
     Inl (KeyError ''test_size'') \<and>
   key_or_type_error (KeyError ''test_size'') \<and>
   fetched (snd (main plain_numpy (sample_world config_no_test_size spam_table (\<lambda>p. None)))) = []"
proof -
  let ?w = "sample_world config_no_test_size spam_table (\<lambda>p. None)"
  have a: "config_files ?w ''params.yaml'' = Inr config_no_test_size"
    by (simp add: sample_world_def)
  have b: "\<not> has_test_size config_no_test_size"
    by (simp add: config_no_test_size_def)
  have c: "fetched ?w = []" by (simp add: sample_world_def)
  have d: "key_or_type_error (KeyError ''test_size'')" by (simp add: key_or_type_error_def)
  from missing_test_size_no_fetch [OF a b, of plain_numpy] a b c d main_body_sample_missing_key
  show ?thesis by simp
qed

text \<open>
  Claim C8. \<^verbatim>\<open>main\<close> never lets an exception of a stage out: it returns normally and
  the script exits with status 0, whether the stages succeeded or not. When a stage
  raised \<open>e\<close>, \<^verbatim>\<open>main\<close> appends the error record
  \<^verbatim>\<open>Data ingestion failed: e\<close> to the log and prints the error line; when the
  stages succeeded it adds nothing.
\<close>

theorem main_swallows_failures:
  "fst (main np w) = Inr () \<and>
   fst (run_script np w) = 0 \<and>
   (\<forall>e. fst (main_body np w) = Inl e \<longrightarrow>
      snd (main np w) =
        print_line [S error_prefix, E e]
          (logger ERROR ''Data ingestion failed: %s'' [E e] (snd (main_body np w)))) \<and>
   (fst (main_body np w) = Inr () \<longrightarrow> snd (main np w) = snd (main_body np w))"
proof (cases "main_body np w")
  case (Pair r w')
  then show ?thesis
    by (cases r) (simp_all add: main_def run_script_def)
qed

text \<open>
  A run whose table lacks the \<^verbatim>\<open>Unnamed\<close> columns (the preprocessor raises) and a
  run that succeeds.
\<close>

theorem main_swallows_failures_witness:
  "fst (main_body plain_numpy (sample_world config_fifth processed_spam_table (\<lambda>p. None))) =
     Inl (KeyError ''['Unnamed: 2', 'Unnamed: 3', 'Unnamed: 4'] not found in axis'') \<and>
   fst (main plain_numpy (sample_world config_fifth processed_spam_table (\<lambda>p. None))) = Inr () \<and>
   fst (run_script plain_numpy (sample_world config_fifth processed_spam_table (\<lambda>p. None))) = 0 \<and>
   last (stdout (snd (main plain_numpy (sample_world config_fifth processed_spam_table (\<lambda>p. None))))) =
     [S error_prefix, E (KeyError ''['Unnamed: 2', 'Unnamed: 3', 'Unnamed: 4'] not found in axis'')] \<and>
   last (log_records
          (snd (main plain_numpy (sample_world config_fifth processed_spam_table (\<lambda>p. None))))) =
     (ERROR, ''Data ingestion failed: %s'',
      [E (KeyError ''['Unnamed: 2', 'Unnamed: 3', 'Unnamed: 4'] not found in axis'')]) \<and>
   fst (main_body plain_numpy (sample_world config_fifth spam_table (\<lambda>p. None))) = Inr () \<and>
   fst (main plain_numpy (sample_world config_fifth spam_table (\<lambda>p. None))) = Inr () \<and>
   fst (run_script plain_numpy (sample_world config_fifth spam_table (\<lambda>p. None))) = 0"
proof -
  let ?bad = "sample_world config_fifth processed_spam_table (\<lambda>p. None)"
  let ?good = "sample_world config_fifth spam_table (\<lambda>p. None)"
  let ?e = "KeyError ''['Unnamed: 2', 'Unnamed: 3', 'Unnamed: 4'] not found in axis''"
  from main_swallows_failures [of plain_numpy ?bad] main_body_sample_schema
  have s: "snd (main plain_numpy ?bad) =
             print_line [S error_prefix, E ?e]
               (logger ERROR ''Data ingestion failed: %s'' [E ?e] (snd (main_body plain_numpy ?bad)))"
    by blast
  have o: "last (stdout (snd (main plain_numpy ?bad))) = [S error_prefix, E ?e]"
    unfolding s by (simp add: print_line_def)
  have l: "last (log_records (snd (main plain_numpy ?bad))) =
             (ERROR, ''Data ingestion failed: %s'', [E ?e])"
    unfolding s by (simp add: print_line_def logger_def)
  from main_swallows_failures [of plain_numpy ?bad] main_swallows_failures [of plain_numpy ?good]
    main_body_sample_schema main_body_sample_ok o l
  show ?thesis by blast
qed

section \<open>The persister\<close>

lemma data_paths:
  "path_join ''./data'' ''raw'' = ''./data/raw''"
  "path_join ''./data/raw'' ''train.csv'' = ''./data/raw/train.csv''"
  "path_join ''./data/raw'' ''test.csv'' = ''./data/raw/test.csv''"
  by (simp_all add: path_join_def)

text \<open>
  Claim C10. When the directory can be made and \<^verbatim>\<open>train.csv\<close> can be written but
  the write of \<^verbatim>\<open>test.csv\<close> fails with \<open>e\<close>, \<^verbatim>\<open>save_data\<close> raises \<open>e\<close> and
  leaves behind the directory and \<^verbatim>\<open>train.csv\<close> holding the train partition, whatever
  was at that path before: nothing is rolled back.
\<close>

theorem save_data_not_atomic:
  assumes "mkdir_error w (path_join data_path ''raw'') = None"
    and "write_error w (path_join (path_join data_path ''raw'') ''train.csv'') = None"
    and "write_error w (path_join (path_join data_path ''raw'') ''test.csv'') = Some e"
  shows "fst (save_data train_data test_data data_path w) = Inl e \<and>
         files (snd (save_data train_data test_data data_path w))
           (path_join (path_join data_path ''raw'') ''train.csv'') = Some (to_csv train_data) \<and>
         path_join data_path ''raw'' \<in> dirs (snd (save_data train_data test_data data_path w))"
  using assms by (simp add: save_data_def save_failed_def logger_def Let_def)

theorem save_data_not_atomic_witness:
  "mkdir_error (sample_world config_fifth spam_table disk_full) ''./data/raw'' = None \<and>
   write_error (sample_world config_fifth spam_table disk_full) ''./data/raw/train.csv'' = None \<and>
   write_error (sample_world config_fifth spam_table disk_full) ''./data/raw/test.csv'' =
     Some (OSError ''No space left on device'') \<and>
   files (sample_world config_fifth spam_table disk_full) ''./data/raw/train.csv'' = None \<and>
   fst (save_data processed_spam_table one_row_processed ''./data''
          (sample_world config_fifth spam_table disk_full)) =
     Inl (OSError ''No space left on device'') \<and>
   files (snd (save_data processed_spam_table one_row_processed ''./data''
                 (sample_world config_fifth spam_table disk_full))) ''./data/raw/train.csv'' =
     Some ([''target'', ''text''],
           [[Text ''ham'', Text ''see you at five''], [Text ''spam'', Text ''win cash now'']])"
proof -
  let ?w = "sample_world config_fifth spam_table disk_full"
  have a: "mkdir_error ?w (path_join ''./data'' ''raw'') = None"
    by (simp add: sample_world_def)
  have b: "write_error ?w (path_join (path_join ''./data'' ''raw'') ''train.csv'') = None"
    by (simp add: sample_world_def data_paths disk_full_def)
  have c: "write_error ?w (path_join (path_join ''./data'' ''raw'') ''test.csv'') =
             Some (OSError ''No space left on device'')"
    by (simp add: sample_world_def data_paths disk_full_def)
  have d: "files ?w ''./data/raw/train.csv'' = None"
    by (simp add: sample_world_def)
  have t: "to_csv processed_spam_table =
             ([''target'', ''text''],
              [[Text ''ham'', Text ''see you at five''], [Text ''spam'', Text ''win cash now'']])"
    by (simp add: to_csv_def labels_def processed_spam_table_def upt_rec)
  from save_data_not_atomic [OF a b c, of processed_spam_table one_row_processed] a b c d t
  show ?thesis by (simp add: data_paths)
qed

end
